theory Spec2Isabelle
  imports Complex_Main
begin

section \<open>PyXtal: the random atomic crystal generator (pyxtal/crystal.py)\<close>

text \<open>
  Python floats are modelled as exact reals, numpy integers as \<open>int\<close>, list lengths and
  indices as \<open>nat\<close>. Every exception the modelled code can raise is a value of \<open>exn\<close>;
  a function that can raise returns \<open>exn + 'a\<close> with \<open>Inl\<close> for the exception.
  \<open>NonFinite\<close> stands for a division by zero: Python floats raise ZeroDivisionError there
  and numpy floats continue with inf or nan, and neither value exists in the reals.
  \<open>NoReturn\<close> stands for a loop that has not returned on the random samples supplied.
\<close>

datatype exn = IndexError | ValueError | NameError | TypeError | NonFinite | NoReturn

subsection \<open>check_distance\<close>

text \<open>
  The tolerance lists are either atomic symbols (converted through \<open>tols_from_species\<close>,
  that is the covalent radius of every symbol) or numbers. \<open>distance_matrix\<close> and the
  element table are not part of crystal.py: they are the parameters \<open>dm\<close> and \<open>radius\<close>.
\<close>

datatype tolerances = Symbols "string list" | Radii "real list"

definition resolve_tols :: "(string \<Rightarrow> real) \<Rightarrow> tolerances \<Rightarrow> exn + real list" where
  "resolve_tols radius tols =
     (case tols of
        Symbols [] \<Rightarrow> Inl IndexError
      | Symbols (s # ss) \<Rightarrow> Inr (map radius (s # ss))
      | Radii [] \<Rightarrow> Inl IndexError
      | Radii (t # ts) \<Rightarrow> Inr (t # ts))"

text \<open>
  numpy broadcasting of the comparison \<open>d < tols\<close>: along each axis the two lengths must
  agree, or one of them is 1 and that row (column) is repeated.
\<close>

definition broadcastable :: "nat \<Rightarrow> nat \<Rightarrow> bool" where
  "broadcastable n m = (n = m \<or> n = 1 \<or> m = 1)"

definition bidx :: "nat \<Rightarrow> nat \<Rightarrow> nat" where
  "bidx len i = (if len = 1 then 0 else i)"

definition any_less :: "real list list \<Rightarrow> real list \<Rightarrow> real list \<Rightarrow> bool" where
  "any_less d tols1 tols2 =
     (let rows = length d; cols = (case d of [] \<Rightarrow> 0 | r # _ \<Rightarrow> length r);
          R = max rows (length tols1); C = max cols (length tols2)
      in list_ex (\<lambda>i. list_ex (\<lambda>j.
            d ! bidx rows i ! bidx cols j
              < tols1 ! bidx (length tols1) i + tols2 ! bidx (length tols2) j) [0..<C]) [0..<R])"

definition check_distance ::
  "('p list \<Rightarrow> 'p list \<Rightarrow> real list list) \<Rightarrow> (string \<Rightarrow> real) \<Rightarrow>
   'p list \<Rightarrow> 'p list \<Rightarrow> tolerances \<Rightarrow> tolerances \<Rightarrow> exn + bool" where
  "check_distance dm radius coord1 coord2 tols1 tols2 =
     (if length coord1 \<le> 1 \<or> length coord2 \<le> 1 then Inr True
      else case resolve_tols radius tols1 of Inl e \<Rightarrow> Inl e | Inr t1 \<Rightarrow>
           (case resolve_tols radius tols2 of Inl e \<Rightarrow> Inl e | Inr t2 \<Rightarrow>
              (let d = dm coord1 coord2
               in if broadcastable (length d) (length t1)
                     \<and> broadcastable (case d of [] \<Rightarrow> 0 | r # _ \<Rightarrow> length r) (length t2)
                  then Inr (\<not> any_less d t1 t2)
                  else Inl ValueError)))"

subsection \<open>cellsize\<close>



subsection \<open>find_short_dist\<close>

text \<open>
  \<open>np.where(d <= tol)\<close> lists the positions of the matrix that satisfy the test in
  row-major order, as the list of their rows and the list of their columns.
\<close>

definition where_le :: "real list list \<Rightarrow> real \<Rightarrow> (nat \<times> nat) list" where
  "where_le d tol =
     concat (map (\<lambda>i. map (\<lambda>j. (i, j)) (filter (\<lambda>j. d ! i ! j \<le> tol) [0..<length (d ! i)]))
                 [0..<length d])"

definition unique :: "nat list \<Rightarrow> nat list" where
  "unique xs = sort (remdups xs)"

text \<open>
  The loop \<open>for i in np.unique(ijs[0]): j = ijs[1][i]; if j <= i: continue;
  pairs.append([i, j, d[i][j]])\<close>.
\<close>

fun collect_pairs :: "real list list \<Rightarrow> nat list \<Rightarrow> nat list \<Rightarrow> exn + (nat \<times> nat \<times> real) list" where
  "collect_pairs d cols [] = Inr []"
| "collect_pairs d cols (i # rest) =
     (if i < length cols then
        (let j = cols ! i in
         if j \<le> i then collect_pairs d cols rest
         else if i < length d \<and> j < length (d ! i) then
           (case collect_pairs d cols rest of
              Inl e \<Rightarrow> Inl e
            | Inr ps \<Rightarrow> Inr ((i, j, d ! i ! j) # ps))
         else Inl IndexError)
      else Inl IndexError)"

text \<open>The loop \<open>for pair in pairs: graph[pair0].append(pair1); graph[pair1].append(pair0)\<close>.\<close>

fun add_edges :: "(nat \<times> nat \<times> real) list \<Rightarrow> nat list list \<Rightarrow> exn + nat list list" where
  "add_edges [] graph = Inr graph"
| "add_edges ((i, j, dij) # ps) graph =
     (if i < length graph \<and> j < length graph then
        (let g1 = graph[i := graph ! i @ [j]];
             g2 = g1[j := g1 ! j @ [i]]
         in add_edges ps g2)
      else Inl IndexError)"

definition find_short_dist ::
  "('p list \<Rightarrow> 'p list \<Rightarrow> real list list) \<Rightarrow> 'p list \<Rightarrow> real \<Rightarrow>
   exn + ((nat \<times> nat \<times> real) list \<times> nat list list)" where
  "find_short_dist dm coor tol =
     (let graph = replicate (length coor) [];
          d = dm coor coor;
          ijs = where_le d tol
      in case collect_pairs d (map snd ijs) (unique (map fst ijs)) of
           Inl e \<Rightarrow> Inl e
         | Inr pairs \<Rightarrow>
             if length pairs > 0 then
               (let d_min = Min (set (map (\<lambda>(i, j, dij). dij) pairs)) + 1 / 1000;
                    pairs' = filter (\<lambda>(i, j, dij). dij \<le> d_min) pairs
                in case add_edges pairs' graph of
                     Inl e \<Rightarrow> Inl e
                   | Inr graph' \<Rightarrow> Inr (pairs', graph'))
             else Inr (pairs, graph))"

subsection \<open>check_compatible\<close>

text \<open>
  A symmetry operation is a rotation matrix with a translation vector, a Wyckoff position
  is the list of its operations, and \<open>wyckoffs_organized\<close> groups the Wyckoff positions
  by multiplicity, the largest first. The method returns False, True or 0.
\<close>

record symmop =
  rotation_matrix :: "real list list"
  translation_vector :: "real list"

type_synonym wyckoff = "symmop list"

datatype compat = CFalse | CTrue | CZero

text \<open>\<open>ndarray.all()\<close>: every entry is different from zero.\<close>

definition ndarray_all :: "real list list \<Rightarrow> bool" where
  "ndarray_all m = list_all (\<lambda>row. list_all (\<lambda>x. x \<noteq> 0) row) m"

text \<open>\<open>np.allclose(m, np.zeros([3,3]))\<close>: every entry is within \<open>atol = 1e-8\<close> of zero.\<close>

definition allclose_zeros :: "real list list \<Rightarrow> bool" where
  "allclose_zeros m = list_all (\<lambda>row. list_all (\<lambda>x. \<bar>x\<bar> \<le> 1 / 10 ^ 8) row) m"

text \<open>The remainder of a numpy integer: a zero divisor gives 0 (with a warning).\<close>

definition np_mod :: "int \<Rightarrow> int \<Rightarrow> int" where
  "np_mod a b = (if b = 0 then 0 else a mod b)"

text \<open>\<open>N_site = [len(x[0]) for x in self.wyckoffs_organized]\<close>\<close>

fun N_site_of :: "wyckoff list list \<Rightarrow> exn + nat list" where
  "N_site_of [] = Inr []"
| "N_site_of ([] # rest) = Inl IndexError"
| "N_site_of ((w # ws) # rest) =
     (case N_site_of rest of Inl e \<Rightarrow> Inl e | Inr ns \<Rightarrow> Inr (length w # ns))"

text \<open>
  The loop \<open>while remaining >= len(wp) and wp not in removed_wyckoffs\<close> on the state
  (remaining, removed_wyckoffs, has_freedom).
\<close>

function wp_while ::
  "wyckoff \<Rightarrow> int \<Rightarrow> wyckoff list \<Rightarrow> bool \<Rightarrow> exn + (int \<times> wyckoff list \<times> bool)" where
  "wp_while wp remaining removed has_freedom =
     (if remaining \<ge> int (length wp) \<and> wp \<notin> set removed then
        (case wp of
           [] \<Rightarrow> Inl IndexError
         | op # _ \<Rightarrow>
             if allclose_zeros (rotation_matrix op)
             then wp_while wp (remaining - int (length wp)) (removed @ [wp]) has_freedom
             else wp_while wp (remaining - int (length wp)) removed True)
      else Inr (remaining, removed, has_freedom))"
  by pat_completeness auto
termination
  by (relation "measure (\<lambda>(wp, remaining, removed, has_freedom).
                   if wp \<in> set removed then 0 else 1 + nat remaining)") auto

text \<open>\<open>for wp in x\<close> and \<open>for x in self.wyckoffs_organized\<close>.\<close>

fun wp_for ::
  "wyckoff list \<Rightarrow> int \<Rightarrow> wyckoff list \<Rightarrow> bool \<Rightarrow> exn + (int \<times> wyckoff list \<times> bool)" where
  "wp_for [] remaining removed has_freedom = Inr (remaining, removed, has_freedom)"
| "wp_for (wp # rest) remaining removed has_freedom =
     (case wp_while wp remaining removed has_freedom of
        Inl e \<Rightarrow> Inl e
      | Inr (remaining', removed', has_freedom') \<Rightarrow> wp_for rest remaining' removed' has_freedom')"

fun organized_for ::
  "wyckoff list list \<Rightarrow> int \<Rightarrow> wyckoff list \<Rightarrow> bool \<Rightarrow> exn + (int \<times> wyckoff list \<times> bool)" where
  "organized_for [] remaining removed has_freedom = Inr (remaining, removed, has_freedom)"
| "organized_for (x # rest) remaining removed has_freedom =
     (case wp_for x remaining removed has_freedom of
        Inl e \<Rightarrow> Inl e
      | Inr (remaining', removed', has_freedom') \<Rightarrow>
          organized_for rest remaining' removed' has_freedom')"

text \<open>\<open>for numIon in self.numIons\<close>, then the final test of \<open>has_freedom\<close>.\<close>

fun numIons_for ::
  "wyckoff list list \<Rightarrow> nat list \<Rightarrow> int list \<Rightarrow> wyckoff list \<Rightarrow> bool \<Rightarrow> exn + compat" where
  "numIons_for wyckoffs_organized N_site [] removed has_freedom =
     Inr (if has_freedom then CTrue else CZero)"
| "numIons_for wyckoffs_organized N_site (numIon # rest) removed has_freedom =
     (case rev N_site of
        [] \<Rightarrow> Inl IndexError
      | n_last # _ \<Rightarrow>
          if np_mod numIon (int n_last) > 0 then Inr CFalse
          else
            (case rev wyckoffs_organized of
               [] \<Rightarrow> Inl IndexError
             | x_last # _ \<Rightarrow>
                 (case rev x_last of
                    [] \<Rightarrow> Inl IndexError
                  | wp_last # _ \<Rightarrow>
                      (case wp_last of
                         [] \<Rightarrow> Inl IndexError
                       | op # _ \<Rightarrow>
                           if ndarray_all (rotation_matrix op)
                           then numIons_for wyckoffs_organized N_site rest removed True
                           else
                             (case organized_for wyckoffs_organized numIon removed has_freedom of
                                Inl e \<Rightarrow> Inl e
                              | Inr (remaining, removed', has_freedom') \<Rightarrow>
                                  if remaining \<noteq> 0 then Inr CFalse
                                  else numIons_for wyckoffs_organized N_site rest
                                         removed' has_freedom')))))"

definition check_compatible :: "wyckoff list list \<Rightarrow> int list \<Rightarrow> exn + compat" where
  "check_compatible wyckoffs_organized numIons =
     (case N_site_of wyckoffs_organized of
        Inl e \<Rightarrow> Inl e
      | Inr N_site \<Rightarrow> numIons_for wyckoffs_organized N_site numIons [] False)"

text \<open>
  The Wyckoff positions of space group 199 (I2_13) in the conventional cell, as the
  International Tables list them: the general position 24c, then 12b (x,0,1/4) and
  8a (x,x,x); each position lists its operations and then their copies shifted by the
  centring vector (1/2,1/2,1/2).
\<close>

definition wyckoff_199_24c :: wyckoff where
  "wyckoff_199_24c =
      [\<lparr>rotation_matrix = [[1, 0, 0], [0, 1, 0], [0, 0, 1]], translation_vector = [0, 0, 0]\<rparr>,
       \<lparr>rotation_matrix = [[- 1, 0, 0], [0, - 1, 0], [0, 0, 1]], translation_vector = [1 / 2, 0, 1 / 2]\<rparr>,
       \<lparr>rotation_matrix = [[- 1, 0, 0], [0, 1, 0], [0, 0, - 1]], translation_vector = [0, 1 / 2, 1 / 2]\<rparr>,
       \<lparr>rotation_matrix = [[1, 0, 0], [0, - 1, 0], [0, 0, - 1]], translation_vector = [1 / 2, 1 / 2, 0]\<rparr>,
       \<lparr>rotation_matrix = [[0, 0, 1], [1, 0, 0], [0, 1, 0]], translation_vector = [0, 0, 0]\<rparr>,
       \<lparr>rotation_matrix = [[0, 0, 1], [- 1, 0, 0], [0, - 1, 0]], translation_vector = [1 / 2, 1 / 2, 0]\<rparr>,
       \<lparr>rotation_matrix = [[0, 0, - 1], [- 1, 0, 0], [0, 1, 0]], translation_vector = [1 / 2, 0, 1 / 2]\<rparr>,
       \<lparr>rotation_matrix = [[0, 0, - 1], [1, 0, 0], [0, - 1, 0]], translation_vector = [0, 1 / 2, 1 / 2]\<rparr>,
       \<lparr>rotation_matrix = [[0, 1, 0], [0, 0, 1], [1, 0, 0]], translation_vector = [0, 0, 0]\<rparr>,
       \<lparr>rotation_matrix = [[0, - 1, 0], [0, 0, 1], [- 1, 0, 0]], translation_vector = [0, 1 / 2, 1 / 2]\<rparr>,
       \<lparr>rotation_matrix = [[0, 1, 0], [0, 0, - 1], [- 1, 0, 0]], translation_vector = [1 / 2, 1 / 2, 0]\<rparr>,
       \<lparr>rotation_matrix = [[0, - 1, 0], [0, 0, - 1], [1, 0, 0]], translation_vector = [1 / 2, 0, 1 / 2]\<rparr>,
       \<lparr>rotation_matrix = [[1, 0, 0], [0, 1, 0], [0, 0, 1]], translation_vector = [1 / 2, 1 / 2, 1 / 2]\<rparr>,
       \<lparr>rotation_matrix = [[- 1, 0, 0], [0, - 1, 0], [0, 0, 1]], translation_vector = [0, 1 / 2, 0]\<rparr>,
       \<lparr>rotation_matrix = [[- 1, 0, 0], [0, 1, 0], [0, 0, - 1]], translation_vector = [1 / 2, 0, 0]\<rparr>,
       \<lparr>rotation_matrix = [[1, 0, 0], [0, - 1, 0], [0, 0, - 1]], translation_vector = [0, 0, 1 / 2]\<rparr>,
       \<lparr>rotation_matrix = [[0, 0, 1], [1, 0, 0], [0, 1, 0]], translation_vector = [1 / 2, 1 / 2, 1 / 2]\<rparr>,
       \<lparr>rotation_matrix = [[0, 0, 1], [- 1, 0, 0], [0, - 1, 0]], translation_vector = [0, 0, 1 / 2]\<rparr>,
       \<lparr>rotation_matrix = [[0, 0, - 1], [- 1, 0, 0], [0, 1, 0]], translation_vector = [0, 1 / 2, 0]\<rparr>,
       \<lparr>rotation_matrix = [[0, 0, - 1], [1, 0, 0], [0, - 1, 0]], translation_vector = [1 / 2, 0, 0]\<rparr>,
       \<lparr>rotation_matrix = [[0, 1, 0], [0, 0, 1], [1, 0, 0]], translation_vector = [1 / 2, 1 / 2, 1 / 2]\<rparr>,
       \<lparr>rotation_matrix = [[0, - 1, 0], [0, 0, 1], [- 1, 0, 0]], translation_vector = [1 / 2, 0, 0]\<rparr>,
       \<lparr>rotation_matrix = [[0, 1, 0], [0, 0, - 1], [- 1, 0, 0]], translation_vector = [0, 0, 1 / 2]\<rparr>,
       \<lparr>rotation_matrix = [[0, - 1, 0], [0, 0, - 1], [1, 0, 0]], translation_vector = [0, 1 / 2, 0]\<rparr>]"

definition wyckoff_199_12b :: wyckoff where
  "wyckoff_199_12b =
      [\<lparr>rotation_matrix = [[1, 0, 0], [0, 0, 0], [0, 0, 0]], translation_vector = [0, 0, 1 / 4]\<rparr>,
       \<lparr>rotation_matrix = [[- 1, 0, 0], [0, 0, 0], [0, 0, 0]], translation_vector = [1 / 2, 0, 3 / 4]\<rparr>,
       \<lparr>rotation_matrix = [[0, 0, 0], [1, 0, 0], [0, 0, 0]], translation_vector = [1 / 4, 0, 0]\<rparr>,
       \<lparr>rotation_matrix = [[0, 0, 0], [- 1, 0, 0], [0, 0, 0]], translation_vector = [3 / 4, 1 / 2, 0]\<rparr>,
       \<lparr>rotation_matrix = [[0, 0, 0], [0, 0, 0], [1, 0, 0]], translation_vector = [0, 1 / 4, 0]\<rparr>,
       \<lparr>rotation_matrix = [[0, 0, 0], [0, 0, 0], [- 1, 0, 0]], translation_vector = [0, 3 / 4, 1 / 2]\<rparr>,
       \<lparr>rotation_matrix = [[1, 0, 0], [0, 0, 0], [0, 0, 0]], translation_vector = [1 / 2, 1 / 2, 3 / 4]\<rparr>,
       \<lparr>rotation_matrix = [[- 1, 0, 0], [0, 0, 0], [0, 0, 0]], translation_vector = [0, 1 / 2, 1 / 4]\<rparr>,
       \<lparr>rotation_matrix = [[0, 0, 0], [1, 0, 0], [0, 0, 0]], translation_vector = [3 / 4, 1 / 2, 1 / 2]\<rparr>,
       \<lparr>rotation_matrix = [[0, 0, 0], [- 1, 0, 0], [0, 0, 0]], translation_vector = [1 / 4, 0, 1 / 2]\<rparr>,
       \<lparr>rotation_matrix = [[0, 0, 0], [0, 0, 0], [1, 0, 0]], translation_vector = [1 / 2, 3 / 4, 1 / 2]\<rparr>,
       \<lparr>rotation_matrix = [[0, 0, 0], [0, 0, 0], [- 1, 0, 0]], translation_vector = [1 / 2, 1 / 4, 0]\<rparr>]"

definition wyckoff_199_8a :: wyckoff where
  "wyckoff_199_8a =
      [\<lparr>rotation_matrix = [[1, 0, 0], [1, 0, 0], [1, 0, 0]], translation_vector = [0, 0, 0]\<rparr>,
       \<lparr>rotation_matrix = [[- 1, 0, 0], [- 1, 0, 0], [1, 0, 0]], translation_vector = [1 / 2, 0, 1 / 2]\<rparr>,
       \<lparr>rotation_matrix = [[- 1, 0, 0], [1, 0, 0], [- 1, 0, 0]], translation_vector = [0, 1 / 2, 1 / 2]\<rparr>,
       \<lparr>rotation_matrix = [[1, 0, 0], [- 1, 0, 0], [- 1, 0, 0]], translation_vector = [1 / 2, 1 / 2, 0]\<rparr>,
       \<lparr>rotation_matrix = [[1, 0, 0], [1, 0, 0], [1, 0, 0]], translation_vector = [1 / 2, 1 / 2, 1 / 2]\<rparr>,
       \<lparr>rotation_matrix = [[- 1, 0, 0], [- 1, 0, 0], [1, 0, 0]], translation_vector = [0, 1 / 2, 0]\<rparr>,
       \<lparr>rotation_matrix = [[- 1, 0, 0], [1, 0, 0], [- 1, 0, 0]], translation_vector = [1 / 2, 0, 0]\<rparr>,
       \<lparr>rotation_matrix = [[1, 0, 0], [- 1, 0, 0], [- 1, 0, 0]], translation_vector = [0, 0, 1 / 2]\<rparr>]"

definition wyckoffs_organized_199 :: "wyckoff list list" where
  "wyckoffs_organized_199 = [[wyckoff_199_24c], [wyckoff_199_12b], [wyckoff_199_8a]]"

subsection \<open>para2matrix and matrix2para\<close>

text \<open>
  A 3x3 numpy array is a triple of rows, the array of six lattice parameters
  [a, b, c, alpha, beta, gamma] a 6-tuple. \<open>sqrt\<close> is \<open>math.sqrt\<close>, which raises
  ValueError ("math domain error") on a negative number. The divisions by
  \<open>sin_gamma\<close> and \<open>sin_alpha\<close> are numpy divisions: a zero divisor gives an infinite
  quotient, whose square makes the radicand minus infinity and \<open>math.sqrt\<close> raise, or nan
  (0/0), which \<open>math.sqrt\<close> passes on into the matrix.
\<close>

type_synonym vec3 = "real \<times> real \<times> real"
type_synonym mat3 = "vec3 \<times> vec3 \<times> vec3"
type_synonym cell_para = "real \<times> real \<times> real \<times> real \<times> real \<times> real"

definition zeros3 :: mat3 where
  "zeros3 = ((0, 0, 0), (0, 0, 0), (0, 0, 0))"

definition para2matrix :: "cell_para \<Rightarrow> bool \<Rightarrow> string \<Rightarrow> exn + mat3" where
  "para2matrix cell_para radians format =
     (case cell_para of (a, b, c, alpha0, beta0, gamma0) \<Rightarrow>
        (let rad = pi / 180;
             alpha = (if radians then alpha0 else alpha0 * rad);
             beta = (if radians then beta0 else beta0 * rad);
             gamma = (if radians then gamma0 else gamma0 * rad);
             cos_alpha = cos alpha;
             cos_beta = cos beta;
             cos_gamma = cos gamma;
             sin_gamma = sin gamma;
             sin_alpha = sin alpha
         in if format = ''lower'' then
              (let c1 = c * cos_beta;
                   num = c * (cos_alpha - cos_beta * cos_gamma)
               in if sin_gamma = 0 then (if num = 0 then Inl NonFinite else Inl ValueError)
                  else
                    (let c2 = num / sin_gamma;
                         r = c\<^sup>2 - c1\<^sup>2 - c2\<^sup>2
                     in if r < 0 then Inl ValueError
                        else Inr ((a, 0, 0), (b * cos_gamma, b * sin_gamma, 0), (c1, c2, sqrt r))))
            else if format = ''symmetric'' then Inr zeros3
            else if format = ''upper'' then
              (let a3 = a * cos_beta;
                   num = a * (cos_gamma - cos_beta * cos_alpha)
               in if sin_alpha = 0 then (if num = 0 then Inl NonFinite else Inl ValueError)
                  else
                    (let a2 = num / sin_alpha;
                         r = a\<^sup>2 - a3\<^sup>2 - a2\<^sup>2
                     in if r < 0 then Inl ValueError
                        else Inr ((sqrt r, a2, a3), (0, b * sin_alpha, b * cos_alpha), (0, 0, c))))
            else Inr zeros3))"

text \<open>
  Modelled from the spec: \<open>angle\<close> of pyxtal.operations, which is not part of the sources
  at hand; the spec gives the "angles via the arccos of normalized dot products".
  \<open>math.acos\<close> raises ValueError outside [-1, 1], and a zero vector gives 0/0.
\<close>

definition norm3 :: "vec3 \<Rightarrow> real" where
  "norm3 v = (case v of (x, y, z) \<Rightarrow> sqrt (x\<^sup>2 + y\<^sup>2 + z\<^sup>2))"

definition dot3 :: "vec3 \<Rightarrow> vec3 \<Rightarrow> real" where
  "dot3 u v = (case u of (x, y, z) \<Rightarrow> case v of (x', y', z') \<Rightarrow> x * x' + y * y' + z * z')"

definition angle :: "vec3 \<Rightarrow> vec3 \<Rightarrow> exn + real" where
  "angle v1 v2 =
     (let n = norm3 v1 * norm3 v2
      in if n = 0 then Inl NonFinite
         else (let q = dot3 v1 v2 / n
               in if q < - 1 \<or> 1 < q then Inl ValueError else Inr (arccos q)))"

definition matrix2para :: "mat3 \<Rightarrow> bool \<Rightarrow> exn + cell_para" where
  "matrix2para matrix radians =
     (case matrix of (m0, m1, m2) \<Rightarrow>
        (case angle m1 m2 of Inl e \<Rightarrow> Inl e | Inr alpha \<Rightarrow>
        (case angle m0 m2 of Inl e \<Rightarrow> Inl e | Inr beta \<Rightarrow>
        (case angle m0 m1 of Inl e \<Rightarrow> Inl e | Inr gamma \<Rightarrow>
           (let deg = 180 / pi
            in if radians then Inr (norm3 m0, norm3 m1, norm3 m2, alpha, beta, gamma)
               else Inr (norm3 m0, norm3 m1, norm3 m2, alpha * deg, beta * deg, gamma * deg))))))"

text \<open>\<open>np.linalg.det\<close> of a 3x3 matrix.\<close>

definition det :: "mat3 \<Rightarrow> real" where
  "det M = (case M of ((m00, m01, m02), (m10, m11, m12), (m20, m21, m22)) \<Rightarrow>
      m00 * (m11 * m22 - m12 * m21) - m01 * (m10 * m22 - m12 * m20)
        + m02 * (m10 * m21 - m11 * m20))"

text \<open>
  The quantities the properties speak about: the radicand \<open>c\<^sup>2 - c1\<^sup>2 - c2\<^sup>2\<close> of the lower
  format, the zeros above the diagonal, and the volume factor
  \<open>1 - cos\<^sup>2 alpha - cos\<^sup>2 beta - cos\<^sup>2 gamma + 2 cos alpha cos beta cos gamma\<close>.
\<close>

definition lower_radicand :: "real \<Rightarrow> real \<Rightarrow> real \<Rightarrow> real \<Rightarrow> real" where
  "lower_radicand c alpha beta gamma =
     c\<^sup>2 - (c * cos beta)\<^sup>2 - ((c * (cos alpha - cos beta * cos gamma)) / sin gamma)\<^sup>2"

definition lower_triangular :: "mat3 \<Rightarrow> bool" where
  "lower_triangular M = (case M of ((m00, m01, m02), (m10, m11, m12), (m20, m21, m22)) \<Rightarrow>
      m01 = 0 \<and> m02 = 0 \<and> m12 = 0)"

definition volume_factor :: "real \<Rightarrow> real \<Rightarrow> real \<Rightarrow> real" where
  "volume_factor alpha beta gamma =
     1 - (cos alpha)\<^sup>2 - (cos beta)\<^sup>2 - (cos gamma)\<^sup>2 + 2 * (cos alpha * cos beta * cos gamma)"

subsection \<open>generate_lattice\<close>

text \<open>
  The random numbers one attempt of the loop draws are its \<open>draw\<close>: the matrix returned
  by \<open>random_shear_matrix(width=0.2)\<close>, the vector returned by \<open>random_vector()\<close> (both of
  pyxtal.operations) and the successive samples \<open>np.random.normal\<close> hands to \<open>gaussian\<close>.
  \<open>gaussian\<close> returns the first sample strictly between its bounds; when the samples
  supplied hold none, it has not returned.
\<close>

record draw =
  random_shear_matrix :: mat3
  random_vector :: vec3
  normal_samples :: "real list"

definition gaussian :: "real \<Rightarrow> real \<Rightarrow> real list \<Rightarrow> exn + real" where
  "gaussian min_v max_v samples =
     (case find (\<lambda>x. x > min_v \<and> x < max_v) samples of
        None \<Rightarrow> Inl NoReturn
      | Some x \<Rightarrow> Inr x)"

definition msqrt :: "real \<Rightarrow> exn + real" where
  "msqrt x = (if x < 0 then Inl ValueError else Inr (sqrt x))"

text \<open>
  The edges of the triclinic, monoclinic and orthorhombic branches:
  \<open>abc = volume/x; xyz = vec[0]*vec[1]*vec[2]; a = vec[0]*np.cbrt(abc)/np.cbrt(xyz)\<close> and
  so on; and of the tetragonal and hexagonal branches:
  \<open>c = vec[2]/(vec[0]*vec[1])*np.cbrt(volume/x); a = b = sqrt((volume/x)/c)\<close>.
  A zero divisor ends the run with \<open>NonFinite\<close>.
\<close>

definition scaled_edges :: "real \<Rightarrow> real \<Rightarrow> vec3 \<Rightarrow> exn + vec3" where
  "scaled_edges volume x v =
     (case v of (v0, v1, v2) \<Rightarrow>
        if x = 0 then Inl NonFinite
        else (let abc = volume / x;
                  xyz = v0 * v1 * v2
              in if root 3 xyz = 0 then Inl NonFinite
                 else Inr (v0 * root 3 abc / root 3 xyz,
                           v1 * root 3 abc / root 3 xyz,
                           v2 * root 3 abc / root 3 xyz)))"

definition prism_edges :: "real \<Rightarrow> real \<Rightarrow> vec3 \<Rightarrow> exn + vec3" where
  "prism_edges volume x v =
     (case v of (v0, v1, v2) \<Rightarrow>
        if x = 0 \<or> v0 * v1 = 0 then Inl NonFinite
        else (let c = v2 / (v0 * v1) * root 3 (volume / x)
              in if c = 0 then Inl NonFinite
                 else (case msqrt ((volume / x) / c) of
                         Inl e \<Rightarrow> Inl e
                       | Inr a \<Rightarrow> Inr (a, a, c))))"

text \<open>
  The branch on the space group number. In the cubic branch \<open>volume ** (1./3.)\<close> of a
  negative volume is nan for a numpy float and a complex number for a Python float.
\<close>

definition sample_para :: "int \<Rightarrow> real \<Rightarrow> real \<Rightarrow> real \<Rightarrow> draw \<Rightarrow> exn + cell_para" where
  "sample_para sg volume minangle maxangle d =
     (if sg \<le> 2 then
        (case matrix2para (random_shear_matrix d) True of
           Inl e \<Rightarrow> Inl e
         | Inr (a0, b0, c0, alpha, beta, gamma) \<Rightarrow>
             (case msqrt (1 - (cos alpha)\<^sup>2 - (cos beta)\<^sup>2 - (cos gamma)\<^sup>2
                            + 2 * (cos alpha * cos beta * cos gamma)) of
                Inl e \<Rightarrow> Inl e
              | Inr x \<Rightarrow>
                  (case scaled_edges volume x (random_vector d) of
                     Inl e \<Rightarrow> Inl e
                   | Inr (a, b, c) \<Rightarrow> Inr (a, b, c, alpha, beta, gamma))))
      else if sg \<le> 15 then
        (case gaussian minangle maxangle (normal_samples d) of
           Inl e \<Rightarrow> Inl e
         | Inr beta \<Rightarrow>
             (case scaled_edges volume (sin beta) (random_vector d) of
                Inl e \<Rightarrow> Inl e
              | Inr (a, b, c) \<Rightarrow> Inr (a, b, c, pi / 2, beta, pi / 2)))
      else if sg \<le> 74 then
        (case scaled_edges volume 1 (random_vector d) of
           Inl e \<Rightarrow> Inl e
         | Inr (a, b, c) \<Rightarrow> Inr (a, b, c, pi / 2, pi / 2, pi / 2))
      else if sg \<le> 142 then
        (case prism_edges volume 1 (random_vector d) of
           Inl e \<Rightarrow> Inl e
         | Inr (a, b, c) \<Rightarrow> Inr (a, b, c, pi / 2, pi / 2, pi / 2))
      else if sg \<le> 194 then
        (case prism_edges volume (sqrt 3 / 2) (random_vector d) of
           Inl e \<Rightarrow> Inl e
         | Inr (a, b, c) \<Rightarrow> Inr (a, b, c, pi / 2, pi / 2, pi / 3 * 2))
      else
        (if volume < 0 then Inl NonFinite
         else (let s = volume powr (1 / 3) in Inr (s, s, s, pi / 2, pi / 2, pi / 2))))"

text \<open>
  The test of the requirements. When every edge is below \<open>maxvec\<close> no edge is zero (a
  zero edge makes \<open>maxvec\<close> zero), so the ratios never divide by zero where the Python
  conjunction evaluates them.
\<close>

definition requirements :: "real \<Rightarrow> real \<Rightarrow> real \<Rightarrow> real \<Rightarrow> real \<Rightarrow> cell_para \<Rightarrow> bool" where
  "requirements minvec maxvec minangle maxangle max_ratio p =
     (case p of (a, b, c, alpha, beta, gamma) \<Rightarrow>
        (let smallvec = min (a * cos (max beta gamma))
                            (min (b * cos (max alpha gamma)) (c * cos (max alpha beta)))
         in a > minvec \<and> b > minvec \<and> c > minvec
            \<and> a < maxvec \<and> b < maxvec \<and> c < maxvec
            \<and> smallvec < minvec
            \<and> alpha > minangle \<and> beta > minangle \<and> gamma > minangle
            \<and> alpha < maxangle \<and> beta < maxangle \<and> gamma < maxangle
            \<and> a / b < max_ratio \<and> a / c < max_ratio \<and> b / c < max_ratio
            \<and> b / a < max_ratio \<and> c / a < max_ratio \<and> c / b < max_ratio))"

definition accept :: "real \<Rightarrow> real \<Rightarrow> real \<Rightarrow> real \<Rightarrow> cell_para \<Rightarrow> exn + cell_para option" where
  "accept minvec minangle maxangle max_ratio p =
     (case p of (a, b, c, alpha, beta, gamma) \<Rightarrow>
        if minvec\<^sup>2 = 0 then Inl NonFinite
        else (let maxvec = (a * b * c) / (minvec\<^sup>2)
              in if minvec < maxvec then
                   (if requirements minvec maxvec minangle maxangle max_ratio p
                    then Inr (Some p)
                    else Inr None)
                 else Inr None))"

definition lattice_attempt ::
  "int \<Rightarrow> real \<Rightarrow> real \<Rightarrow> real \<Rightarrow> real \<Rightarrow> draw \<Rightarrow> exn + cell_para option" where
  "lattice_attempt sg volume minvec minangle max_ratio d =
     (let maxangle = pi - minangle
      in case sample_para sg volume minangle maxangle d of
           Inl e \<Rightarrow> Inl e
         | Inr p \<Rightarrow> accept minvec minangle maxangle max_ratio p)"

text \<open>
  \<open>for n in range(maxattempts)\<close>: attempt \<open>n\<close> uses the draw \<open>rnd n\<close>. After the last
  attempt the function prints a message and returns None; with no attempt at all the
  message reads the unbound \<open>n\<close>.
\<close>

fun lattice_loop ::
  "int \<Rightarrow> real \<Rightarrow> real \<Rightarrow> real \<Rightarrow> real \<Rightarrow> (nat \<Rightarrow> draw) \<Rightarrow> nat \<Rightarrow> nat \<Rightarrow> exn + cell_para option" where
  "lattice_loop sg volume minvec minangle max_ratio rnd 0 n = Inr None"
| "lattice_loop sg volume minvec minangle max_ratio rnd (Suc k) n =
     (case lattice_attempt sg volume minvec minangle max_ratio (rnd n) of
        Inl e \<Rightarrow> Inl e
      | Inr (Some p) \<Rightarrow> Inr (Some p)
      | Inr None \<Rightarrow> lattice_loop sg volume minvec minangle max_ratio rnd k (Suc n))"

definition generate_lattice ::
  "int \<Rightarrow> real \<Rightarrow> real \<Rightarrow> real \<Rightarrow> real \<Rightarrow> nat \<Rightarrow> (nat \<Rightarrow> draw) \<Rightarrow> exn + cell_para option" where
  "generate_lattice sg volume minvec minangle max_ratio maxattempts rnd =
     (if maxattempts = 0 then Inl NameError
      else lattice_loop sg volume minvec minangle max_ratio rnd maxattempts 0)"


section \<open>Properties\<close>

text \<open>
  C10. Whenever \<open>check_distance\<close> is called with at most one point in \<open>coord1\<close> or at most
  one point in \<open>coord2\<close>, it returns True whatever the distance matrix, the lattice, the
  element table and the tolerance lists are: no distance is looked at.
\<close>

theorem check_distance_single_point:
  "length coord1 \<le> 1 \<or> length coord2 \<le> 1 \<Longrightarrow>
   check_distance dm radius coord1 coord2 tols1 tols2 = Inr True"
  by (simp add: check_distance_def)

theorem check_distance_single_point_witness:
  "(length [(0::real, 0::real, 0::real)] \<le> 1
      \<or> length [(0::real, 0::real, 0::real), (1 / 2, 1 / 2, 1 / 2)] \<le> 1)
   \<and> check_distance (\<lambda>A B. [[0, 0]]) (\<lambda>s. 1)
         [(0::real, 0::real, 0::real)] [(0, 0, 0), (1 / 2, 1 / 2, 1 / 2)]
         (Symbols [''C'']) (Symbols [''C'', ''C'']) = Inr True"
  using check_distance_single_point
          [of "[(0::real, 0::real, 0::real)]"
              "[(0::real, 0::real, 0::real), (1 / 2, 1 / 2, 1 / 2)]"
              "\<lambda>A B. [[0, 0]]" "\<lambda>s. 1" "Symbols [''C'']" "Symbols [''C'', ''C'']"]
  by simp




text \<open>
  C2. The claim: whenever some pair of points is within the tolerance, the edges of the
  graph are exactly the pairs (i,j), i < j, within d_min + 0.001. The code reads the column
  of a pair at position \<open>ijs[1][i]\<close>, where i is a row number and not a position in the
  list of hits. Two points at distance 0.1 with tolerance 0.3: the hits are
  (0,0),(0,1),(1,0),(1,1), rows 0 and 1 read the columns 0 and 1, both are skipped, and the
  graph has no edge although (0,1) is within the tolerance. Three points of which only
  0 and 2 are close (distance 0.1): row 1 reads the column 2 of the hit (0,2), and the
  graph gets the edge (1,2) of length 1.
\<close>

theorem find_short_dist_misses_close_pair:
  "find_short_dist (\<lambda>A B. [[0, 1 / 10], [1 / 10, 0]])
     [(0::real, 0::real, 0::real), (1 / 10, 0, 0)] (3 / 10) = Inr ([], [[], []])
   \<and> find_short_dist (\<lambda>A B. [[0, 1, 1 / 10], [1, 0, 1], [1 / 10, 1, 0]])
       [(0::real, 0::real, 0::real), (1, 0, 0), (1 / 10, 0, 0)] (3 / 10)
     = Inr ([(1, 2, 1)], [[], [2], [1]])"
  by code_simp

text \<open>
  C1. The claim: when every species count is a multiple of the smallest multiplicity and
  the first rotation of the smallest Wyckoff position is not the zero matrix, the result
  is True. The code tests that freedom with \<open>rotation_matrix.all() != 0.0\<close>, which holds
  only when no entry of the matrix is zero. Space group 199 with 16 atoms in the
  conventional cell: 16 is a multiple of 8, the first rotation of 8a (x,x,x) is not zero
  but has zero entries, so the code takes the subtraction branch, takes 12b once, is left
  with 4 atoms and returns False, although two 8a positions hold the 16 atoms.
\<close>

theorem check_compatible_sg199_rejected:
  "np_mod 16 (int (length wyckoff_199_8a)) = 0
   \<and> \<not> allclose_zeros (rotation_matrix (hd wyckoff_199_8a))
   \<and> \<not> ndarray_all (rotation_matrix (hd wyckoff_199_8a))
   \<and> check_compatible wyckoffs_organized_199 [16] = Inr CFalse"
  by code_simp

subsection \<open>Lattice conversion and sampling\<close>

lemma norm_row0: "0 < a \<Longrightarrow> norm3 (a, 0, 0) = a"
  by (simp add: norm3_def)

lemma norm_row1: "0 < b \<Longrightarrow> norm3 (b * cos g, b * sin g, 0) = b"
proof -
  assume b: "0 < b"
  have "(b * cos g)\<^sup>2 + (b * sin g)\<^sup>2 = b\<^sup>2 * ((cos g)\<^sup>2 + (sin g)\<^sup>2)"
    by algebra
  then have "(b * cos g)\<^sup>2 + (b * sin g)\<^sup>2 = b\<^sup>2" by simp
  then show ?thesis using b by (simp add: norm3_def)
qed

lemma norm_row2: "0 < c \<Longrightarrow> 0 \<le> c\<^sup>2 - c1\<^sup>2 - c2\<^sup>2 \<Longrightarrow> norm3 (c1, c2, sqrt (c\<^sup>2 - c1\<^sup>2 - c2\<^sup>2)) = c"
  by (simp add: norm3_def)

lemma angle_arccos:
  "0 < n1 \<Longrightarrow> 0 < n2 \<Longrightarrow> norm3 u = n1 \<Longrightarrow> norm3 v = n2 \<Longrightarrow> dot3 u v = n1 * n2 * cos t \<Longrightarrow>
   0 \<le> t \<Longrightarrow> t \<le> pi \<Longrightarrow> angle u v = Inr t"
  by (simp add: angle_def Let_def arccos_cos not_less)

lemma lattice_loop_attempt:
  "lattice_loop sg volume minvec minangle max_ratio rnd k n = Inr (Some p) \<Longrightarrow>
   \<exists>m. lattice_attempt sg volume minvec minangle max_ratio (rnd m) = Inr (Some p)"
proof (induction k arbitrary: n)
  case 0
  then show ?case by simp
next
  case (Suc k)
  show ?case
  proof (cases "lattice_attempt sg volume minvec minangle max_ratio (rnd n)")
    case (Inl e)
    with Suc.prems show ?thesis by simp
  next
    case (Inr r)
    show ?thesis
    proof (cases r)
      case None
      with Inr Suc.prems have "lattice_loop sg volume minvec minangle max_ratio rnd k (Suc n) = Inr (Some p)"
        by simp
      then show ?thesis by (rule Suc.IH)
    next
      case (Some q)
      with Inr Suc.prems have "q = p" by simp
      with Inr Some show ?thesis by blast
    qed
  qed
qed

lemma generate_lattice_attempt:
  "generate_lattice sg volume minvec minangle max_ratio maxattempts rnd = Inr (Some p) \<Longrightarrow>
   \<exists>m. lattice_attempt sg volume minvec minangle max_ratio (rnd m) = Inr (Some p)"
  by (auto simp add: generate_lattice_def split: if_splits dest: lattice_loop_attempt)

lemma accept_SomeD:
  assumes "accept minvec minangle maxangle max_ratio p = Inr (Some q)"
  shows "q = p"
    and "minvec \<noteq> 0"
    and "requirements minvec ((fst p * fst (snd p) * fst (snd (snd p))) / minvec\<^sup>2)
           minangle maxangle max_ratio p"
  using assms by (simp_all add: accept_def Let_def split: prod.splits if_splits)

lemma requirementsD:
  assumes "requirements minvec maxvec minangle maxangle max_ratio (a, b, c, alpha, beta, gamma)"
  shows "minvec < a" "minvec < b" "minvec < c"
    and "minangle < alpha" "minangle < beta" "minangle < gamma"
    and "alpha < maxangle" "beta < maxangle" "gamma < maxangle"
    and "a / b < max_ratio" "a / c < max_ratio" "b / c < max_ratio"
    and "b / a < max_ratio" "c / a < max_ratio" "c / b < max_ratio"
    and "min (a * cos (max beta gamma)) (min (b * cos (max alpha gamma)) (c * cos (max alpha beta))) < minvec"
    and "a < maxvec" "b < maxvec" "c < maxvec"
  using assms unfolding requirements_def Let_def prod.case by blast+

lemma attempt_accept:
  assumes "lattice_attempt sg volume minvec minangle max_ratio d = Inr (Some p)"
  shows "sample_para sg volume minangle (pi - minangle) d = Inr p
         \<and> accept minvec minangle (pi - minangle) max_ratio p = Inr (Some p)"
proof (cases "sample_para sg volume minangle (pi - minangle) d")
  case (Inl e)
  with assms show ?thesis by (simp add: lattice_attempt_def)
next
  case (Inr q)
  with assms have "accept minvec minangle (pi - minangle) max_ratio q = Inr (Some p)"
    by (simp add: lattice_attempt_def)
  with Inr accept_SomeD(1) [OF this] show ?thesis by simp
qed

lemma radicand_algebra:
  fixes s :: real
  assumes "s \<noteq> 0" and "s\<^sup>2 = 1 - g\<^sup>2"
  shows "c\<^sup>2 - (c * b)\<^sup>2 - ((c * (a - b * g)) / s)\<^sup>2
         = c\<^sup>2 * (1 - a\<^sup>2 - b\<^sup>2 - g\<^sup>2 + 2 * (a * b * g)) / s\<^sup>2"
proof -
  have "(c\<^sup>2 - (c * b)\<^sup>2 - ((c * (a - b * g)) / s)\<^sup>2) * s\<^sup>2
        = c\<^sup>2 * s\<^sup>2 - (c * b)\<^sup>2 * s\<^sup>2 - (c * (a - b * g))\<^sup>2"
    using assms(1) by (simp add: power_divide left_diff_distrib)
  also have "\<dots> = c\<^sup>2 * (1 - g\<^sup>2) - (c * b)\<^sup>2 * (1 - g\<^sup>2) - (c * (a - b * g))\<^sup>2"
    by (simp add: assms(2))
  also have "\<dots> = c\<^sup>2 * (1 - a\<^sup>2 - b\<^sup>2 - g\<^sup>2 + 2 * (a * b * g))"
    by (simp add: power2_eq_square algebra_simps)
  finally have E: "(c\<^sup>2 - (c * b)\<^sup>2 - ((c * (a - b * g)) / s)\<^sup>2) * s\<^sup>2
        = c\<^sup>2 * (1 - a\<^sup>2 - b\<^sup>2 - g\<^sup>2 + 2 * (a * b * g))" .
  have "s\<^sup>2 \<noteq> 0" using assms(1) by simp
  with E show ?thesis by (simp only: eq_divide_eq simp_thms if_True)
qed

lemma lower_radicand_factor:
  assumes "sin gamma \<noteq> 0"
  shows "lower_radicand c alpha beta gamma = c\<^sup>2 * volume_factor alpha beta gamma / (sin gamma)\<^sup>2"
  unfolding lower_radicand_def volume_factor_def
  by (rule radicand_algebra [OF assms]) (simp add: sin_squared_eq)

lemma det_para2matrix:
  assumes "0 < c" "0 < sin gamma" "0 \<le> volume_factor alpha beta gamma"
  shows "\<exists>M. para2matrix (a, b, c, alpha, beta, gamma) True ''lower'' = Inr M
             \<and> det M = a * b * c * sqrt (volume_factor alpha beta gamma)"
proof -
  let ?X = "volume_factor alpha beta gamma"
  have sg: "sin gamma \<noteq> 0" using assms by simp
  have r: "lower_radicand c alpha beta gamma = c\<^sup>2 * ?X / (sin gamma)\<^sup>2"
    by (rule lower_radicand_factor [OF sg])
  have r0: "0 \<le> lower_radicand c alpha beta gamma"
    unfolding r using assms by simp
  have sq: "sqrt (lower_radicand c alpha beta gamma) = c * sqrt ?X / sin gamma"
    unfolding r using assms by (simp add: real_sqrt_divide real_sqrt_mult)
  let ?M = "((a, 0, 0), (b * cos gamma, b * sin gamma, 0),
             (c * cos beta, (c * (cos alpha - cos beta * cos gamma)) / sin gamma,
              sqrt (lower_radicand c alpha beta gamma)))"
  have P: "para2matrix (a, b, c, alpha, beta, gamma) True ''lower'' = Inr ?M"
    using sg r0 by (simp add: para2matrix_def Let_def lower_radicand_def)
  have "det ?M = a * (b * sin gamma * sqrt (lower_radicand c alpha beta gamma))"
    by (simp add: det_def)
  also have "\<dots> = a * b * c * sqrt ?X"
    unfolding sq using sg by simp
  finally show ?thesis using P by blast
qed

lemma cube_quotient:
  fixes r q :: real
  assumes "q \<noteq> 0"
  shows "(v0 * r / q) * (v1 * r / q) * (v2 * r / q) = (v0 * v1 * v2) * r ^ 3 / q ^ 3"
  using assms by (simp add: power3_eq_cube field_simps)

lemma scaled_edges_product:
  assumes "scaled_edges volume x v = Inr (a, b, c)"
  shows "x \<noteq> 0" and "a * b * c = volume / x"
proof -
  obtain v0 v1 v2 where v: "v = (v0, v1, v2)" by (cases v) auto
  from assms v show x: "x \<noteq> 0"
    by (auto simp add: scaled_edges_def Let_def split: if_splits)
  from assms v x have q: "root 3 (v0 * v1 * v2) \<noteq> 0"
    by (auto simp add: scaled_edges_def Let_def split: if_splits)
  then have xyz: "v0 * v1 * v2 \<noteq> 0" by auto
  from assms v x q have abc:
    "a = v0 * root 3 (volume / x) / root 3 (v0 * v1 * v2)"
    "b = v1 * root 3 (volume / x) / root 3 (v0 * v1 * v2)"
    "c = v2 * root 3 (volume / x) / root 3 (v0 * v1 * v2)"
    by (auto simp add: scaled_edges_def Let_def split: if_splits)
  have "a * b * c = (v0 * v1 * v2) * root 3 (volume / x) ^ 3 / root 3 (v0 * v1 * v2) ^ 3"
    unfolding abc by (rule cube_quotient [OF q])
  also have "\<dots> = (v0 * v1 * v2) * (volume / x) / (v0 * v1 * v2)"
    by (simp add: odd_real_root_pow)
  also have "\<dots> = volume / x" using xyz by simp
  finally show "a * b * c = volume / x" .
qed

lemma prism_edges_product:
  assumes "prism_edges volume x v = Inr (a, b, c)"
  shows "x \<noteq> 0" and "a * b * c = volume / x"
proof -
  obtain v0 v1 v2 where v: "v = (v0, v1, v2)" by (cases v) auto
  from assms v show x: "x \<noteq> 0"
    by (auto simp add: prism_edges_def Let_def split: if_splits)
  from assms v x have c0: "c \<noteq> 0" and nn: "0 \<le> volume / x / c"
    and ab: "a = sqrt (volume / x / c)" "b = sqrt (volume / x / c)"
    by (auto simp add: prism_edges_def msqrt_def Let_def split: if_splits)
  have "a * b * c = (sqrt (volume / x / c))\<^sup>2 * c"
    unfolding ab by (simp add: power2_eq_square)
  also have "\<dots> = volume / x / c * c" using nn by simp
  also have "\<dots> = volume / x" using c0 by simp
  finally show "a * b * c = volume / x" .
qed

lemma cube_powr:
  assumes "0 \<le> (v::real)"
  shows "v powr (1 / 3) * (v powr (1 / 3)) * (v powr (1 / 3)) = v"
proof (cases "v = 0")
  case True
  then show ?thesis by simp
next
  case False
  with assms have "0 < v" by simp
  then have "v powr (1 / 3) * (v powr (1 / 3)) * (v powr (1 / 3)) = v powr (1 / 3 + 1 / 3 + 1 / 3)"
    by (simp only: powr_add)
  also have "\<dots> = v" using \<open>0 < v\<close> by simp
  finally show ?thesis .
qed

lemma volume_factor_right [simp]: "volume_factor (pi / 2) beta (pi / 2) = (sin beta)\<^sup>2"
  by (simp add: volume_factor_def sin_squared_eq)

lemma volume_factor_hex [simp]: "volume_factor (pi / 2) (pi / 2) (pi / 3 * 2) = 3 / 4"
proof -
  have "cos (pi / 3 * 2) = - 1 / 2" using cos_120 by (simp add: mult.commute)
  then show ?thesis by (simp add: volume_factor_def power2_eq_square)
qed

lemma sample_para_volume:
  assumes "sample_para sg volume minangle maxangle d = Inr (a, b, c, alpha, beta, gamma)"
      and "0 < beta" "beta < pi"
  shows "0 \<le> volume_factor alpha beta gamma
         \<and> a * b * c * sqrt (volume_factor alpha beta gamma) = volume"
proof -
  consider (tric) "sg \<le> 2" | (mono) "2 < sg" "sg \<le> 15" | (orth) "15 < sg" "sg \<le> 74"
    | (tetr) "74 < sg" "sg \<le> 142" | (hex) "142 < sg" "sg \<le> 194" | (cub) "194 < sg"
    by linarith
  then show ?thesis
  proof cases
    case tric
    with assms(1) obtain x where
      x: "msqrt (volume_factor alpha beta gamma) = Inr x"
      and e: "scaled_edges volume x (random_vector d) = Inr (a, b, c)"
      by (auto simp add: sample_para_def volume_factor_def split: sum.splits prod.splits)
    from x have X: "0 \<le> volume_factor alpha beta gamma" "x = sqrt (volume_factor alpha beta gamma)"
      by (auto simp add: msqrt_def split: if_splits)
    from scaled_edges_product [OF e] X show ?thesis by simp
  next
    case mono
    with assms(1) have ang: "alpha = pi / 2" "gamma = pi / 2"
      and e: "scaled_edges volume (sin beta) (random_vector d) = Inr (a, b, c)"
      by (auto simp add: sample_para_def split: sum.splits prod.splits)
    have s: "0 < sin beta" using assms(2,3) by (rule sin_gt_zero)
    from scaled_edges_product [OF e] s show ?thesis unfolding ang by simp
  next
    case orth
    with assms(1) have ang: "alpha = pi / 2" "beta = pi / 2" "gamma = pi / 2"
      and e: "scaled_edges volume 1 (random_vector d) = Inr (a, b, c)"
      by (auto simp add: sample_para_def split: sum.splits prod.splits)
    from scaled_edges_product [OF e] show ?thesis unfolding ang by simp
  next
    case tetr
    with assms(1) have ang: "alpha = pi / 2" "beta = pi / 2" "gamma = pi / 2"
      and e: "prism_edges volume 1 (random_vector d) = Inr (a, b, c)"
      by (auto simp add: sample_para_def split: sum.splits prod.splits)
    from prism_edges_product [OF e] show ?thesis unfolding ang by simp
  next
    case hex
    with assms(1) have ang: "alpha = pi / 2" "beta = pi / 2" "gamma = pi / 3 * 2"
      and e: "prism_edges volume (sqrt 3 / 2) (random_vector d) = Inr (a, b, c)"
      by (auto simp add: sample_para_def split: sum.splits prod.splits)
    have vf: "volume_factor alpha beta gamma = 3 / 4"
      unfolding ang by (rule volume_factor_hex)
    have sq: "sqrt (3 / 4) = sqrt 3 / 2" by (simp add: real_sqrt_divide)
    have "a * b * c * (sqrt 3 / 2) = volume / (sqrt 3 / 2) * (sqrt 3 / 2)"
      using prism_edges_product(2) [OF e] by simp
    also have "\<dots> = volume" by simp
    finally show ?thesis unfolding vf sq by simp
  next
    case cub
    with assms(1) have ang: "alpha = pi / 2" "beta = pi / 2" "gamma = pi / 2"
      and v: "0 \<le> volume"
      and e: "a = volume powr (1 / 3)" "b = volume powr (1 / 3)" "c = volume powr (1 / 3)"
      by (auto simp add: sample_para_def Let_def split: if_splits)
    from cube_powr [OF v] show ?thesis unfolding ang e by simp
  qed
qed

lemma root_3_8: "root 3 8 = (2::real)"
  using real_root_power_cancel [of 3 "2::real"] by simp

lemma lattice_loop_first:
  "lattice_attempt sg volume minvec minangle max_ratio (rnd 0) = Inr (Some p) \<Longrightarrow> 0 < maxattempts \<Longrightarrow>
   generate_lattice sg volume minvec minangle max_ratio maxattempts rnd = Inr (Some p)"
  by (cases maxattempts) (simp_all add: generate_lattice_def)

lemma sample_attempt:
  "lattice_attempt 16 8 1 (pi / 6) 10 \<lparr>random_shear_matrix = ((1, 0, 0), (0, 1, 0), (0, 0, 1)),
                      random_vector = (1, 1, 1), normal_samples = []\<rparr>
     = Inr (Some (2, 2, 2, pi / 2, pi / 2, pi / 2))"
  by (simp add: lattice_attempt_def sample_para_def
        scaled_edges_def accept_def requirements_def root_3_8 Let_def)

text \<open>
  C8. For parameters with sin(gamma) different from zero, \<open>para2matrix\<close> in the default
  lower format raises the domain error exactly when the radicand \<open>c\<^sup>2 - c1\<^sup>2 - c2\<^sup>2\<close>, with
  \<open>c1 = c cos(beta)\<close> and \<open>c2 = c (cos(alpha) - cos(beta) cos(gamma)) / sin(gamma)\<close>, is
  negative, and it raises nothing else; when the radicand is not negative it returns the
  lower-triangular matrix.
\<close>

theorem para2matrix_domain_error:
  "sin gamma \<noteq> 0 \<Longrightarrow>
   (para2matrix (a, b, c, alpha, beta, gamma) True ''lower'' = Inl ValueError
      \<longleftrightarrow> lower_radicand c alpha beta gamma < 0)
   \<and> ((\<exists>e. para2matrix (a, b, c, alpha, beta, gamma) True ''lower'' = Inl e)
      \<longleftrightarrow> lower_radicand c alpha beta gamma < 0)
   \<and> (0 \<le> lower_radicand c alpha beta gamma \<longrightarrow>
        para2matrix (a, b, c, alpha, beta, gamma) True ''lower''
          = Inr ((a, 0, 0),
                 (b * cos gamma, b * sin gamma, 0),
                 (c * cos beta, (c * (cos alpha - cos beta * cos gamma)) / sin gamma,
                  sqrt (lower_radicand c alpha beta gamma)))
        \<and> lower_triangular ((a, 0, 0),
                 (b * cos gamma, b * sin gamma, 0),
                 (c * cos beta, (c * (cos alpha - cos beta * cos gamma)) / sin gamma,
                  sqrt (lower_radicand c alpha beta gamma))))"
  by (auto simp add: para2matrix_def lower_radicand_def lower_triangular_def Let_def)

theorem para2matrix_domain_error_witness:
  "sin (pi / 2) \<noteq> (0::real)
   \<and> 0 \<le> lower_radicand 2 (pi / 2) (pi / 2) (pi / 2)
   \<and> para2matrix (2, 3, 2, pi / 2, pi / 2, pi / 2) True ''lower''
       = Inr ((2, 0, 0), (0, 3, 0), (0, 0, 2))
   \<and> lower_radicand 1 0 0 (pi / 2) < 0
   \<and> para2matrix (1, 1, 1, 0, 0, pi / 2) True ''lower'' = Inl ValueError"
  using para2matrix_domain_error [where gamma = "pi / 2" and a = 2 and b = 3 and c = 2
          and alpha = "pi / 2" and beta = "pi / 2"]
        para2matrix_domain_error [where gamma = "pi / 2" and a = 1 and b = 1 and c = 1
          and alpha = 0 and beta = 0]
  by (simp add: lower_radicand_def)

text \<open>
  C9. For a valid parameter tuple (positive edges, angles strictly between 0 and pi, a
  radicand that is not negative) \<open>para2matrix\<close> in the lower format returns a matrix from
  which \<open>matrix2para\<close> returns the six parameters again: in exact arithmetic the round
  trip is the identity, hence within every tolerance, 10^-8 included.
\<close>

theorem para2matrix_matrix2para_roundtrip:
  assumes "0 < a" "0 < b" "0 < c"
      and "0 < alpha" "alpha < pi" "0 < beta" "beta < pi" "0 < gamma" "gamma < pi"
      and "0 \<le> lower_radicand c alpha beta gamma"
  shows "\<exists>M. para2matrix (a, b, c, alpha, beta, gamma) True ''lower'' = Inr M
            \<and> matrix2para M True = Inr (a, b, c, alpha, beta, gamma)"
proof -
  have sg: "0 < sin gamma" using assms by (simp add: sin_gt_zero)
  define c1 where "c1 = c * cos beta"
  define c2 where "c2 = (c * (cos alpha - cos beta * cos gamma)) / sin gamma"
  define M :: mat3 where "M = ((a, 0, 0), (b * cos gamma, b * sin gamma, 0), (c1, c2, sqrt (c\<^sup>2 - c1\<^sup>2 - c2\<^sup>2)))"
  have r: "0 \<le> c\<^sup>2 - c1\<^sup>2 - c2\<^sup>2"
    using assms(10) by (simp add: lower_radicand_def c1_def c2_def)
  have P: "para2matrix (a, b, c, alpha, beta, gamma) True ''lower'' = Inr M"
    using sg r by (simp add: para2matrix_def Let_def M_def c1_def c2_def)
  have n0: "norm3 (a, 0, 0) = a" using assms by (simp add: norm_row0)
  have n1: "norm3 (b * cos gamma, b * sin gamma, 0) = b" using assms by (simp add: norm_row1)
  have n2: "norm3 (c1, c2, sqrt (c\<^sup>2 - c1\<^sup>2 - c2\<^sup>2)) = c" using assms r by (simp add: norm_row2)
  have d12: "dot3 (b * cos gamma, b * sin gamma, 0) (c1, c2, sqrt (c\<^sup>2 - c1\<^sup>2 - c2\<^sup>2)) = b * c * cos alpha"
    using sg by (simp add: dot3_def c1_def c2_def field_simps)
  have d02: "dot3 (a, 0, 0) (c1, c2, sqrt (c\<^sup>2 - c1\<^sup>2 - c2\<^sup>2)) = a * c * cos beta"
    by (simp add: dot3_def c1_def)
  have d01: "dot3 (a, 0, 0) (b * cos gamma, b * sin gamma, 0) = a * b * cos gamma"
    by (simp add: dot3_def)
  have A: "angle (b * cos gamma, b * sin gamma, 0) (c1, c2, sqrt (c\<^sup>2 - c1\<^sup>2 - c2\<^sup>2)) = Inr alpha"
    using angle_arccos [OF assms(2) assms(3) n1 n2 d12] assms by simp
  have B: "angle (a, 0, 0) (c1, c2, sqrt (c\<^sup>2 - c1\<^sup>2 - c2\<^sup>2)) = Inr beta"
    using angle_arccos [OF assms(1) assms(3) n0 n2 d02] assms by simp
  have C: "angle (a, 0, 0) (b * cos gamma, b * sin gamma, 0) = Inr gamma"
    using angle_arccos [OF assms(1) assms(2) n0 n1 d01] assms by simp
  have "matrix2para M True = Inr (a, b, c, alpha, beta, gamma)"
    by (simp add: matrix2para_def M_def A B C n0 n1 n2)
  with P show ?thesis by blast
qed

theorem para2matrix_matrix2para_roundtrip_witness:
  "(0::real) < 2 \<and> (0::real) < 3 \<and> (0::real) < 4
   \<and> 0 < pi / 2 \<and> pi / 2 < pi
   \<and> 0 \<le> lower_radicand 4 (pi / 2) (pi / 2) (pi / 2)
   \<and> (\<exists>M. para2matrix (2, 3, 4, pi / 2, pi / 2, pi / 2) True ''lower'' = Inr M
          \<and> matrix2para M True = Inr (2, 3, 4, pi / 2, pi / 2, pi / 2))"
  using para2matrix_matrix2para_roundtrip [of 2 3 4 "pi / 2" "pi / 2" "pi / 2"]
  by (simp add: lower_radicand_def)

text \<open>
  C7. Every tuple (a, b, c, alpha, beta, gamma) that \<open>generate_lattice\<close> returns satisfies
  the requirements: the edges are at least \<open>minvec\<close>, every angle lies strictly between
  \<open>minangle\<close> and \<open>pi - minangle\<close>, every ratio of two edges is at most \<open>max_ratio\<close>, and the
  minimum of \<open>a cos(max(beta, gamma))\<close>, \<open>b cos(max(alpha, gamma))\<close> and
  \<open>c cos(max(alpha, beta))\<close> is strictly less than \<open>minvec\<close>.
\<close>

theorem generate_lattice_requirements:
  assumes "generate_lattice sg volume minvec minangle max_ratio maxattempts rnd
             = Inr (Some (a, b, c, alpha, beta, gamma))"
  shows "minvec \<le> a \<and> minvec \<le> b \<and> minvec \<le> c
         \<and> minangle < alpha \<and> alpha < pi - minangle
         \<and> minangle < beta \<and> beta < pi - minangle
         \<and> minangle < gamma \<and> gamma < pi - minangle
         \<and> a / b \<le> max_ratio \<and> a / c \<le> max_ratio \<and> b / c \<le> max_ratio
         \<and> b / a \<le> max_ratio \<and> c / a \<le> max_ratio \<and> c / b \<le> max_ratio
         \<and> min (a * cos (max beta gamma))
               (min (b * cos (max alpha gamma)) (c * cos (max alpha beta))) < minvec"
proof -
  from generate_lattice_attempt [OF assms] obtain m where
    "lattice_attempt sg volume minvec minangle max_ratio (rnd m)
       = Inr (Some (a, b, c, alpha, beta, gamma))" ..
  then have "accept minvec minangle (pi - minangle) max_ratio (a, b, c, alpha, beta, gamma)
               = Inr (Some (a, b, c, alpha, beta, gamma))"
    by (simp add: attempt_accept)
  from accept_SomeD(3) [OF this]
  have R: "requirements minvec (a * b * c / minvec\<^sup>2) minangle (pi - minangle) max_ratio
             (a, b, c, alpha, beta, gamma)"
    by simp
  note D = requirementsD [OF R]
  show ?thesis
    using D(1-16) by (simp add: less_imp_le)
qed

theorem generate_lattice_requirements_witness:
  "generate_lattice 16 8 1 (pi / 6) 10 100
     (\<lambda>n. \<lparr>random_shear_matrix = ((1, 0, 0), (0, 1, 0), (0, 0, 1)),
            random_vector = (1, 1, 1), normal_samples = []\<rparr>)
     = Inr (Some (2, 2, 2, pi / 2, pi / 2, pi / 2))
   \<and> (1::real) \<le> 2 \<and> pi / 6 < pi / 2 \<and> pi / 2 < pi - pi / 6 \<and> (2::real) / 2 \<le> 10
   \<and> min (2 * cos (max (pi / 2) (pi / 2)))
         (min (2 * cos (max (pi / 2) (pi / 2))) (2 * cos (max (pi / 2) (pi / 2)))) < (1::real)"
proof -
  have H: "generate_lattice 16 8 1 (pi / 6) 10 100
     (\<lambda>n. \<lparr>random_shear_matrix = ((1, 0, 0), (0, 1, 0), (0, 0, 1)),
            random_vector = (1, 1, 1), normal_samples = []\<rparr>)
     = Inr (Some (2, 2, 2, pi / 2, pi / 2, pi / 2))"
    by (rule lattice_loop_first) (simp_all add: sample_attempt)
  from generate_lattice_requirements [OF H] H show ?thesis by simp
qed

text \<open>
  C3. For every parameter tuple that the 3D lattice sampler returns for a space group and
  a target volume, with a positive \<open>minvec\<close> and a \<open>minangle\<close> that is not negative (the
  driver passes at least \<open>tol_m\<close> and leaves pi/6), \<open>para2matrix\<close> returns a matrix whose
  determinant is the target volume, so that the test \<open>abs(volume - det) > 1.0\<close> of
  \<open>generate_crystal\<close> never fires.
\<close>

theorem generate_lattice_volume:
  assumes "generate_lattice sg volume minvec minangle max_ratio maxattempts rnd = Inr (Some p)"
      and "0 < minvec" and "0 \<le> minangle"
  shows "\<exists>M. para2matrix p True ''lower'' = Inr M \<and> det M = volume \<and> \<bar>volume - det M\<bar> \<le> 1"
proof -
  obtain a b c alpha beta gamma where p: "p = (a, b, c, alpha, beta, gamma)"
    by (cases p) auto
  from generate_lattice_attempt [OF assms(1)] obtain m where
    "lattice_attempt sg volume minvec minangle max_ratio (rnd m) = Inr (Some p)" ..
  from attempt_accept [OF this]
  have S: "sample_para sg volume minangle (pi - minangle) (rnd m) = Inr (a, b, c, alpha, beta, gamma)"
    and A: "accept minvec minangle (pi - minangle) max_ratio (a, b, c, alpha, beta, gamma)
              = Inr (Some (a, b, c, alpha, beta, gamma))"
    unfolding p by simp_all
  from accept_SomeD(3) [OF A]
  have R: "requirements minvec (a * b * c / minvec\<^sup>2) minangle (pi - minangle) max_ratio
             (a, b, c, alpha, beta, gamma)"
    by simp
  note D = requirementsD [OF R]
  have c: "0 < c" using D(3) assms(2) by simp
  have beta: "0 < beta" "beta < pi" using D(5,8) assms(3) by simp_all
  have gamma: "0 < gamma" "gamma < pi" using D(6,9) assms(3) by simp_all
  have sg: "0 < sin gamma" using gamma by (rule sin_gt_zero)
  from sample_para_volume [OF S beta]
  have X: "0 \<le> volume_factor alpha beta gamma"
    and V: "a * b * c * sqrt (volume_factor alpha beta gamma) = volume"
    by simp_all
  from det_para2matrix [OF c sg X, of a b] obtain M where
    "para2matrix (a, b, c, alpha, beta, gamma) True ''lower'' = Inr M"
    "det M = a * b * c * sqrt (volume_factor alpha beta gamma)"
    by blast
  with V p show ?thesis by auto
qed

theorem generate_lattice_volume_witness:
  "generate_lattice 16 8 1 (pi / 6) 10 100
     (\<lambda>n. \<lparr>random_shear_matrix = ((1, 0, 0), (0, 1, 0), (0, 0, 1)),
            random_vector = (1, 1, 1), normal_samples = []\<rparr>)
     = Inr (Some (2, 2, 2, pi / 2, pi / 2, pi / 2))
   \<and> (0::real) < 1 \<and> 0 \<le> pi / 6
   \<and> (\<exists>M. para2matrix (2, 2, 2, pi / 2, pi / 2, pi / 2) True ''lower'' = Inr M
          \<and> det M = 8 \<and> \<bar>8 - det M\<bar> \<le> 1)"
proof -
  have H: "generate_lattice 16 8 1 (pi / 6) 10 100
     (\<lambda>n. \<lparr>random_shear_matrix = ((1, 0, 0), (0, 1, 0), (0, 0, 1)),
            random_vector = (1, 1, 1), normal_samples = []\<rparr>)
     = Inr (Some (2, 2, 2, pi / 2, pi / 2, pi / 2))"
    by (rule lattice_loop_first) (simp_all add: sample_attempt)
  have "(0::real) < 1" and "0 \<le> pi / 6" by simp_all
  from generate_lattice_volume [OF H this] H show ?thesis by simp
qed

end
